theory Spec2Isabelle
  imports Main
begin

section \<open>Python values and exceptions\<close>

text \<open>
  Exceptions are values: every function that can raise returns \<open>py_error + 'a\<close>, with
  \<open>Inl\<close> the exception raised. A warning issued through \<open>warnings.warn\<close> is appended to
  the list of warnings the call emits (the default warning filter: a warning is reported,
  it is not turned into an exception).
\<close>

datatype py_error =
    AttributeError string
  | ModuleNotFoundError string
  | ValueError string
  | TypeError string
  | OtherError string

datatype warning = UserWarning string

section \<open>The default executor (\<open>prefect/engine/executors/__init__.py\<close>)\<close>

text \<open>
  The value found under \<open>prefect.config.engine.executor\<close>: a \<open>str\<close>, or any other
  object. An object that is not a \<open>str\<close> has no \<open>split\<close> method; \<open>CfgNonStr\<close> carries the
  text \<open>"{}".format\<close> renders for it.
\<close>

datatype config_value = CfgStr string | CfgNonStr string

datatype executor = LocalExecutor | SynchronousExecutor | DaskExecutor | OtherExecutor string

text \<open>
  What the module reads from its surroundings: the configuration attribute (whose access
  may raise), \<open>importlib.import_module\<close>, \<open>getattr\<close> on the imported module, and
  the call of the attribute found there.
\<close>

record ('m, 'c) py_env =
  config_engine_executor :: "py_error + config_value"
  import_module :: "string \<Rightarrow> py_error + 'm"
  getattr_module :: "'m \<Rightarrow> string \<Rightarrow> py_error + 'c"
  call_class :: "'c \<Rightarrow> py_error + executor"

record module_state =
  warnings :: "warning list"
  DEFAULT_EXECUTOR :: executor

text \<open>\<open>s.split(".")\<close>: the pieces between the dots; never an empty list.\<close>

fun split_dot :: "string \<Rightarrow> string list" where
  "split_dot [] = [[]]"
| "split_dot (c # cs) =
     (if c = CHR ''.'' then [] # split_dot cs
      else (case split_dot cs of
              [] \<Rightarrow> [[c]]
            | w # ws \<Rightarrow> (c # w) # ws))"

text \<open>\<open>".".join(xs)\<close>.\<close>

fun join_dot :: "string list \<Rightarrow> string" where
  "join_dot [] = []"
| "join_dot [x] = x"
| "join_dot (x # y # ys) = x @ ''.'' @ join_dot (y # ys)"

text \<open>\<open>cfg_exec.split(".")\<close>: an \<open>AttributeError\<close> on an object that is not a \<open>str\<close>.\<close>

definition cfg_split :: "config_value \<Rightarrow> py_error + string list" where
  "cfg_split v =
     (case v of
        CfgStr s \<Rightarrow> Inr (split_dot s)
      | CfgNonStr _ \<Rightarrow> Inl (AttributeError ''split''))"

text \<open>\<open>*module, cls_name = xs\<close>: a \<open>ValueError\<close> when \<open>xs\<close> is empty.\<close>

definition unpack_star_last :: "string list \<Rightarrow> py_error + (string list \<times> string)" where
  "unpack_star_last xs =
     (case rev xs of
        [] \<Rightarrow> Inl (ValueError ''not enough values to unpack'')
      | cls_name # module \<Rightarrow> Inr (rev module, cls_name))"

text \<open>\<open>"{}".format(v)\<close>.\<close>

definition format_value :: "config_value \<Rightarrow> string" where
  "format_value v = (case v of CfgStr s \<Rightarrow> s | CfgNonStr s \<Rightarrow> s)"

definition fallback_message :: "config_value \<Rightarrow> string" where
  "fallback_message v =
     ''Could not import '' @ format_value v @
     '', using prefect.engine.executors.LocalExecutor instead.''"

text \<open>The body of the \<open>try\<close> block (lines 45 to 48).\<close>

definition resolve_configured :: "('m, 'c) py_env \<Rightarrow> py_error + executor" where
  "resolve_configured env =
     (case config_engine_executor env of
        Inl e \<Rightarrow> Inl e
      | Inr cfg_exec \<Rightarrow>
         (case cfg_split cfg_exec of
            Inl e \<Rightarrow> Inl e
          | Inr parts \<Rightarrow>
             (case unpack_star_last parts of
                Inl e \<Rightarrow> Inl e
              | Inr (module, cls_name) \<Rightarrow>
                 (case import_module env (join_dot module) of
                    Inl e \<Rightarrow> Inl e
                  | Inr m \<Rightarrow>
                     (case getattr_module env m cls_name of
                        Inl e \<Rightarrow> Inl e
                      | Inr cls \<Rightarrow> call_class env cls)))))"

text \<open>
  The \<open>try\<close>/\<open>except\<close> statement (lines 44 to 55). The bare \<open>except\<close> catches
  whatever the body raised; the handler reads \<open>prefect.config.engine.executor\<close> again
  to build the message, outside any \<open>try\<close>, then warns and binds \<open>LocalExecutor()\<close>.
\<close>

definition init_DEFAULT_EXECUTOR :: "('m, 'c) py_env \<Rightarrow> py_error + module_state" where
  "init_DEFAULT_EXECUTOR env =
     (case resolve_configured env of
        Inr ex \<Rightarrow> Inr \<lparr>warnings = [], DEFAULT_EXECUTOR = ex\<rparr>
      | Inl _ \<Rightarrow>
         (case config_engine_executor env of
            Inl e \<Rightarrow> Inl e
          | Inr v \<Rightarrow>
             Inr \<lparr>warnings = [UserWarning (fallback_message v)],
                  DEFAULT_EXECUTOR = LocalExecutor\<rparr>))"

section \<open>Secret tasks (\<open>prefect/tasks/secrets/base.py\<close>)\<close>

text \<open>The three classes of the file, and \<open>cls.__name__\<close>.\<close>

datatype secret_class = SecretBase | PrefectSecret | Secret

fun class_name :: "secret_class \<Rightarrow> string" where
  "class_name SecretBase = ''SecretBase''"
| "class_name PrefectSecret = ''PrefectSecret''"
| "class_name Secret = ''Secret''"

text \<open>
  A task object is known by its class and its identity; \<open>class_of\<close> is \<open>type(self)\<close>,
  which any code that holds the object can read.
\<close>

datatype ref = Ref secret_class nat

fun class_of :: "ref \<Rightarrow> secret_class" where
  "class_of (Ref cls _) = cls"

text \<open>
  The values that travel in keyword arguments: \<open>None\<close>, booleans, integers, strings, a
  \<open>datetime.timedelta\<close> (in seconds), a result handler the caller made, and a
  \<open>SecretResultHandler\<close>, which holds the task it was given as \<open>secret_task\<close>. A handler
  of the caller is an object of a class of the caller's: it is known by a label and by
  its truth value, which is what its \<open>__bool__\<close> or \<open>__len__\<close> gives, and \<open>True\<close> for
  a class that defines neither.
\<close>

datatype pyval =
    PNone
  | PBool bool
  | PInt int
  | PStr string
  | PTimedelta int
  | PResultHandler string bool
  | PSecretResultHandler ref

text \<open>Python's truth value of an object, as \<open>if x:\<close> tests it.\<close>

fun truthy :: "pyval \<Rightarrow> bool" where
  "truthy PNone = False"
| "truthy (PBool b) = b"
| "truthy (PInt i) = (i \<noteq> 0)"
| "truthy (PStr s) = (s \<noteq> [])"
| "truthy (PTimedelta d) = (d \<noteq> 0)"
| "truthy (PResultHandler _ b) = b"
| "truthy (PSecretResultHandler _) = True"

type_synonym kwargs = "string \<rightharpoonup> pyval"

text \<open>\<open>kwargs.get(k)\<close>: \<open>None\<close> when the key is absent.\<close>

definition dict_get :: "kwargs \<Rightarrow> string \<Rightarrow> pyval" where
  "dict_get kw k = (case kw k of None \<Rightarrow> PNone | Some v \<Rightarrow> v)"

text \<open>\<open>kwargs.setdefault(k, d)\<close>: stores \<open>d\<close> only when the key is absent.\<close>

definition setdefault :: "kwargs \<Rightarrow> string \<Rightarrow> pyval \<Rightarrow> kwargs" where
  "setdefault kw k d = (case kw k of None \<Rightarrow> kw(k \<mapsto> d) | Some _ \<Rightarrow> kw)"

definition not_configurable :: py_error where
  "not_configurable = ValueError ''Result Handlers for Secrets are not configurable.''"

text \<open>
  \<open>SecretBase.__init__(self, **kwargs)\<close> (lines 26 to 30). The constructor of the base
  class \<open>Task\<close> is not part of the file: it is the parameter \<open>task_init\<close>, called with
  the object under construction and the keyword arguments, and it may raise.
\<close>

definition SecretBase_init ::
  "(ref \<Rightarrow> kwargs \<Rightarrow> py_error + 't) \<Rightarrow> ref \<Rightarrow> kwargs \<Rightarrow> py_error + 't" where
  "SecretBase_init task_init self kw =
     (if truthy (dict_get kw ''result_handler'') then Inl not_configurable
      else task_init self (kw(''result_handler'' \<mapsto> PSecretResultHandler self)))"

text \<open>\<open>PrefectSecret.__init__(self, name, **kwargs)\<close> (lines 46 to 53).\<close>

definition PrefectSecret_init ::
  "(ref \<Rightarrow> kwargs \<Rightarrow> py_error + 't) \<Rightarrow> ref \<Rightarrow> pyval \<Rightarrow> kwargs \<Rightarrow> py_error + 't" where
  "PrefectSecret_init task_init self name kw =
     (let kw1 = kw(''name'' \<mapsto> name);
          kw2 = setdefault kw1 ''max_retries'' (PInt 2);
          kw3 = setdefault kw2 ''retry_delay'' (PTimedelta 1)
      in if truthy (dict_get kw3 ''result_handler'') then Inl not_configurable
         else task_init self (kw3(''result_handler'' \<mapsto> PSecretResultHandler self)))"

text \<open>
  How Python binds the arguments of a call to the signature \<open>(self, name, **kwargs)\<close>:
  \<open>name\<close> comes from the one positional argument or from the keyword \<open>name\<close>, which
  then is not part of \<open>kwargs\<close>; anything else is a \<open>TypeError\<close>.
\<close>

definition bind_name :: "pyval list \<Rightarrow> kwargs \<Rightarrow> py_error + (pyval \<times> kwargs)" where
  "bind_name args kw =
     (case args of
        [] \<Rightarrow>
          (case kw ''name'' of
             None \<Rightarrow> Inl (TypeError ''missing 1 required positional argument: name'')
           | Some n \<Rightarrow> Inr (n, kw(''name'' := None)))
      | [n] \<Rightarrow>
          (case kw ''name'' of
             None \<Rightarrow> Inr (n, kw)
           | Some _ \<Rightarrow> Inl (TypeError ''got multiple values for argument name''))
      | _ # _ # _ \<Rightarrow> Inl (TypeError ''takes 2 positional arguments but more were given''))"

text \<open>The call \<open>PrefectSecret.__init__(self, *args, **kwargs)\<close>, arguments not yet bound.\<close>

definition PrefectSecret_call ::
  "(ref \<Rightarrow> kwargs \<Rightarrow> py_error + 't) \<Rightarrow> ref \<Rightarrow> pyval list \<Rightarrow> kwargs \<Rightarrow> py_error + 't" where
  "PrefectSecret_call task_init self args kw =
     (case bind_name args kw of
        Inl e \<Rightarrow> Inl e
      | Inr (name, kw') \<Rightarrow> PrefectSecret_init task_init self name kw')"

definition deprecation_message :: string where
  "deprecation_message =
     ''The `Secret` task is deprecated and has been renamed `PrefectSecret`.''"

text \<open>
  \<open>Secret.__init__(self, *args, **kwargs)\<close> (lines 74 to 79): the warning, then the
  constructor of \<open>PrefectSecret\<close> on the same arguments. The result is the warnings
  emitted and the outcome.
\<close>

definition Secret_init ::
  "(ref \<Rightarrow> kwargs \<Rightarrow> py_error + 't) \<Rightarrow> ref \<Rightarrow> pyval list \<Rightarrow> kwargs
     \<Rightarrow> warning list \<times> (py_error + 't)" where
  "Secret_init task_init self args kw =
     ([UserWarning deprecation_message], PrefectSecret_call task_init self args kw)"

text \<open>
  The expression \<open>Cls(*args, **kwargs)\<close> for each of the three classes. The new object,
  of class \<open>Cls\<close> and identity \<open>oid\<close>, fills the parameter \<open>self\<close> of the class's
  \<open>__init__\<close>, so a keyword named \<open>self\<close> is a \<open>TypeError\<close> before any body runs (for
  \<open>Secret\<close> too: before its warning). The other arguments are bound to the signature:
  \<open>SecretBase\<close> takes keywords only, \<open>Secret\<close> takes anything and passes it on.
\<close>

definition new_task ::
  "secret_class \<Rightarrow> (ref \<Rightarrow> kwargs \<Rightarrow> py_error + 't) \<Rightarrow> nat \<Rightarrow> pyval list \<Rightarrow> kwargs
     \<Rightarrow> warning list \<times> (py_error + 't)" where
  "new_task cls task_init oid args kw =
     (if kw ''self'' \<noteq> None
      then ([], Inl (TypeError ''got multiple values for argument self''))
      else
        (case cls of
           SecretBase \<Rightarrow>
             ([], case args of
                    [] \<Rightarrow> SecretBase_init task_init (Ref SecretBase oid) kw
                  | _ # _ \<Rightarrow>
                      Inl (TypeError ''takes 1 positional argument but more were given''))
         | PrefectSecret \<Rightarrow>
             ([], PrefectSecret_call task_init (Ref PrefectSecret oid) args kw)
         | Secret \<Rightarrow> Secret_init task_init (Ref Secret oid) args kw))"

text \<open>Whether the arguments of a call bind to the signature of the class's constructor.\<close>

definition binds :: "secret_class \<Rightarrow> pyval list \<Rightarrow> kwargs \<Rightarrow> bool" where
  "binds cls args kw =
     (kw ''self'' = None \<and>
      (case cls of
         SecretBase \<Rightarrow> args = []
       | PrefectSecret \<Rightarrow> \<not> isl (bind_name args kw)
       | Secret \<Rightarrow> \<not> isl (bind_name args kw)))"

subsection \<open>The task object\<close>

text \<open>A task object: its identity and its attributes.\<close>

record task =
  task_id :: ref
  task_attrs :: kwargs

text \<open>
  Modelled from the spec: \<open>Task.__init__\<close> (\<open>prefect.core.task\<close>) is not among the
  sources. By the spec a task is a descriptor (name, retry count, retry delay) that
  carries a result handler; the constructor keeps each keyword argument it receives as
  the attribute of that name.
\<close>

definition Task_init :: "ref \<Rightarrow> kwargs \<Rightarrow> py_error + task" where
  "Task_init self kw = Inr \<lparr>task_id = self, task_attrs = kw\<rparr>"

text \<open>
  Modelled from the spec: \<open>Task.__init__\<close> is not among the sources, and the spec does
  not say how a task is named that is given no name. This second constructor differs
  from \<open>Task_init\<close> in that one point: the attribute \<open>name\<close> is
  \<open>name or type(self).__name__\<close>, so a task given no name, or a falsy one, is named
  after its class.
\<close>

definition Task_init_class_named :: "ref \<Rightarrow> kwargs \<Rightarrow> py_error + task" where
  "Task_init_class_named self kw =
     Inr \<lparr>task_id = self,
          task_attrs =
            kw(''name'' \<mapsto>
                 (if truthy (dict_get kw ''name'') then dict_get kw ''name''
                  else PStr (class_name (class_of self))))\<rparr>"

text \<open>
  A property that both constructors have: when the constructor succeeds on a keyword
  \<open>name\<close> that is truthy, the task has that value as its attribute \<open>name\<close>.
\<close>

definition keeps_truthy_name :: "(ref \<Rightarrow> kwargs \<Rightarrow> py_error + task) \<Rightarrow> bool" where
  "keeps_truthy_name task_init =
     (\<forall>self kw t v. task_init self kw = Inr t \<longrightarrow> kw ''name'' = Some v \<longrightarrow> truthy v
        \<longrightarrow> task_attrs t ''name'' = Some v)"

subsection \<open>Running a \<open>PrefectSecret\<close>\<close>

text \<open>
  \<open>PrefectSecret.run(self, name=None)\<close> (lines 55 to 70). The body returns
  \<open>_Secret(name).get()\<close>; the secret client is the parameter \<open>secret_get\<close>.

  Modelled from the spec: the decorator \<open>defaults_from_attrs("name")\<close>
  (\<open>prefect.utilities.tasks\<close>) is not among the sources. By the docstring of \<open>run\<close>, a
  call that gives no \<open>name\<close> runs with the attribute \<open>name\<close> of the task.
\<close>

definition defaults_from_attrs_name :: "task \<Rightarrow> pyval option \<Rightarrow> py_error + pyval" where
  "defaults_from_attrs_name t arg =
     (case arg of
        Some n \<Rightarrow> Inr n
      | None \<Rightarrow>
          (case task_attrs t ''name'' of
             None \<Rightarrow> Inl (AttributeError ''name'')
           | Some n \<Rightarrow> Inr n))"

definition PrefectSecret_run ::
  "(pyval \<Rightarrow> py_error + pyval) \<Rightarrow> task \<Rightarrow> pyval option \<Rightarrow> py_error + pyval" where
  "PrefectSecret_run secret_get t arg =
     (case defaults_from_attrs_name t arg of
        Inl e \<Rightarrow> Inl e
      | Inr name \<Rightarrow> secret_get name)"

text \<open>
  The method \<open>run\<close> of each class: \<open>Secret\<close> defines none and inherits the one of
  \<open>PrefectSecret\<close>; \<open>SecretBase\<close> has the one of \<open>Task\<close>, which is not among the sources.
\<close>

definition run_method ::
  "secret_class \<Rightarrow> ((pyval \<Rightarrow> py_error + pyval) \<Rightarrow> task \<Rightarrow> pyval option \<Rightarrow> py_error + pyval) option" where
  "run_method cls =
     (case cls of
        SecretBase \<Rightarrow> None
      | PrefectSecret \<Rightarrow> Some PrefectSecret_run
      | Secret \<Rightarrow> Some PrefectSecret_run)"

subsection \<open>The secret client and the secure result handler\<close>

text \<open>
  What secret retrieval reads: the secrets of the execution context, whether the engine
  runs in local-only secret mode, and the external secret store (which may raise).
\<close>

record secret_env =
  context_secrets :: "pyval \<rightharpoonup> pyval"
  use_local_secrets :: bool
  secret_store :: "pyval \<Rightarrow> py_error + pyval"

text \<open>
  Modelled from the spec: \<open>Secret(name).get()\<close> of \<open>prefect.client.secrets\<close> is not among
  the sources. By the spec it consults the execution context for a value for \<open>name\<close>
  first; if absent, in local-only secret mode that is an error, and otherwise the
  external secret store is queried.
\<close>

definition client_Secret_get :: "secret_env \<Rightarrow> pyval \<Rightarrow> py_error + pyval" where
  "client_Secret_get env name =
     (case context_secrets env name of
        Some v \<Rightarrow> Inr v
      | None \<Rightarrow>
          (if use_local_secrets env then Inl (ValueError ''Local Secret not found'')
           else secret_store env name))"

text \<open>
  Modelled from the spec: \<open>SecretResultHandler\<close> (\<open>prefect.engine.result_handlers\<close>) is
  not among the sources. By the spec the handler is bound to one task; \<open>write\<close> persists
  an opaque marker instead of the value, and \<open>read\<close> resolves the value again by
  running the secret retrieval of its task. The spec does not say what the marker is:
  it is the parameter \<open>marker\<close>, a string made from the task.
\<close>

definition SecretResultHandler_write :: "(task \<Rightarrow> string) \<Rightarrow> task \<Rightarrow> pyval \<Rightarrow> pyval" where
  "SecretResultHandler_write marker secret_task result = PStr (marker secret_task)"

definition SecretResultHandler_read :: "secret_env \<Rightarrow> task \<Rightarrow> pyval \<Rightarrow> py_error + pyval" where
  "SecretResultHandler_read env secret_task persisted =
     PrefectSecret_run (client_Secret_get env) secret_task None"


subsection \<open>Example environments and tasks\<close>


text \<open>
  A small installation: only the package \<open>prefect.engine.executors\<close> can be imported,
  and it has the classes \<open>LocalExecutor\<close> and \<open>SynchronousExecutor\<close>. The argument is
  what the access to \<open>prefect.config.engine.executor\<close> gives.
\<close>

definition example_env :: "py_error + config_value \<Rightarrow> (string, string) py_env" where
  "example_env cfg =
     \<lparr>config_engine_executor = cfg,
      import_module = (\<lambda>m. if m = ''prefect.engine.executors'' then Inr m
                           else Inl (ModuleNotFoundError m)),
      getattr_module = (\<lambda>m c. if c = ''LocalExecutor'' \<or> c = ''SynchronousExecutor''
                                then Inr c else Inl (AttributeError c)),
      call_class = (\<lambda>c. if c = ''LocalExecutor'' then Inr LocalExecutor
                         else Inr SynchronousExecutor)\<rparr>"

text \<open>
  A marker for the secure result handler: the name of the task, when it is a string.
\<close>

definition name_marker :: "task \<Rightarrow> string" where
  "name_marker t = (case task_attrs t ''name'' of Some (PStr s) \<Rightarrow> s | _ \<Rightarrow> [])"

text \<open>
  An execution context that holds one secret, in local-only secret mode, with a secret
  store that cannot be reached.
\<close>

definition example_secret_env :: "pyval \<Rightarrow> pyval \<Rightarrow> secret_env" where
  "example_secret_env name v =
     \<lparr>context_secrets = [name \<mapsto> v],
      use_local_secrets = True,
      secret_store = (\<lambda>n. Inl (OtherError ''secret store unreachable''))\<rparr>"

text \<open>
  The task object that \<open>PrefectSecret(n)\<close> builds as object 1 with \<open>Task_init\<close> (see
  \<open>example_task_constructed\<close>).
\<close>

definition example_task :: "string \<Rightarrow> task" where
  "example_task n =
     \<lparr>task_id = Ref PrefectSecret 1,
      task_attrs = [''name'' \<mapsto> PStr n, ''max_retries'' \<mapsto> PInt 2,
                    ''retry_delay'' \<mapsto> PTimedelta 1,
                    ''result_handler'' \<mapsto> PSecretResultHandler (Ref PrefectSecret 1)]\<rparr>"

section \<open>Properties of the default executor\<close>


text \<open>
  \<open>split\<close> always returns at least one piece, so the starred unpacking never fails on it.
\<close>

lemma split_dot_not_Nil: "split_dot s \<noteq> []"
  by (induction s) (auto split: list.splits)

lemma unpack_star_last_split_dot:
  "unpack_star_last (split_dot s) = Inr (butlast (split_dot s), last (split_dot s))"
proof -
  obtain c m where r: "rev (split_dot s) = c # m"
    using split_dot_not_Nil [of s] by (cases "rev (split_dot s)") auto
  then have "split_dot s = rev m @ [c]"
    by (metis rev_eq_Cons_iff rev_rev_ident)
  then show ?thesis
    using r by (simp add: unpack_star_last_def)
qed

text \<open>
  For a configured string the \<open>try\<close> body is: import the module named by all pieces
  but the last, look the last piece up in it, call what is found.
\<close>

lemma resolve_configured_str:
  assumes "config_engine_executor env = Inr (CfgStr s)"
  shows "resolve_configured env =
     (case import_module env (join_dot (butlast (split_dot s))) of
        Inl e \<Rightarrow> Inl e
      | Inr m \<Rightarrow>
         (case getattr_module env m (last (split_dot s)) of
            Inl e \<Rightarrow> Inl e
          | Inr cls \<Rightarrow> call_class env cls))"
  using assms
  by (simp add: resolve_configured_def cfg_split_def unpack_star_last_split_dot)

text \<open>
  The three failures of the resolution proper: missing module, missing class, failing
  constructor. Each makes the \<open>try\<close> body raise.
\<close>

lemma resolve_missing_module:
  assumes "config_engine_executor env = Inr (CfgStr s)"
    and "import_module env (join_dot (butlast (split_dot s))) = Inl e"
  shows "resolve_configured env = Inl e"
  using assms by (simp add: resolve_configured_str)

lemma resolve_missing_class:
  assumes "config_engine_executor env = Inr (CfgStr s)"
    and "import_module env (join_dot (butlast (split_dot s))) = Inr m"
    and "getattr_module env m (last (split_dot s)) = Inl e"
  shows "resolve_configured env = Inl e"
  using assms by (simp add: resolve_configured_str)

lemma resolve_constructor_failure:
  assumes "config_engine_executor env = Inr (CfgStr s)"
    and "import_module env (join_dot (butlast (split_dot s))) = Inr m"
    and "getattr_module env m (last (split_dot s)) = Inr cls"
    and "call_class env cls = Inl e"
  shows "resolve_configured env = Inl e"
  using assms by (simp add: resolve_configured_str)

text \<open>
  A configured value that is not a string fails at \<open>split\<close>.
\<close>

lemma resolve_not_a_str:
  assumes "config_engine_executor env = Inr (CfgNonStr r)"
  shows "resolve_configured env = Inl (AttributeError ''split'')"
  using assms by (simp add: resolve_configured_def cfg_split_def)

text \<open>
  When the configuration attribute can be read, the statement never raises.
\<close>

lemma init_never_raises_when_configured:
  assumes "config_engine_executor env = Inr v"
  shows "\<exists>st. init_DEFAULT_EXECUTOR env = Inr st"
  using assms by (auto simp: init_DEFAULT_EXECUTOR_def split: sum.splits)

text \<open>
  Claim C1. Whenever the configured value can be read and resolving it fails, for
  whatever reason (missing module, missing class, failing constructor, a value that is
  not a string), the statement does not raise: it emits exactly one warning, whose
  message names the configured value, and binds \<open>DEFAULT_EXECUTOR\<close> to \<open>LocalExecutor\<close>.
\<close>

theorem default_executor_fallback:
  assumes "config_engine_executor env = Inr v"
    and "resolve_configured env = Inl e"
  shows "init_DEFAULT_EXECUTOR env =
     Inr \<lparr>warnings =
            [UserWarning (''Could not import '' @ format_value v @
               '', using prefect.engine.executors.LocalExecutor instead.'')],
          DEFAULT_EXECUTOR = LocalExecutor\<rparr>"
  using assms by (simp add: init_DEFAULT_EXECUTOR_def fallback_message_def)

text \<open>
  Claim C1 at the configured string \<open>nonexistent.module.Klass\<close>: the import of
  \<open>nonexistent.module\<close> fails, one warning is emitted and \<open>LocalExecutor\<close> is bound.
\<close>

theorem default_executor_fallback_witness:
  "init_DEFAULT_EXECUTOR (example_env (Inr (CfgStr ''nonexistent.module.Klass''))) =
     Inr \<lparr>warnings =
            [UserWarning ''Could not import nonexistent.module.Klass, using prefect.engine.executors.LocalExecutor instead.''],
          DEFAULT_EXECUTOR = LocalExecutor\<rparr>"
proof -
  let ?env = "example_env (Inr (CfgStr ''nonexistent.module.Klass''))"
  have cfg: "config_engine_executor ?env = Inr (CfgStr ''nonexistent.module.Klass'')"
    by (simp add: example_env_def)
  have "import_module ?env (join_dot (butlast (split_dot ''nonexistent.module.Klass''))) =
          Inl (ModuleNotFoundError ''nonexistent.module'')"
    by (simp add: example_env_def)
  then have fails: "resolve_configured ?env = Inl (ModuleNotFoundError ''nonexistent.module'')"
    by (rule resolve_missing_module [OF cfg])
  show ?thesis
    using default_executor_fallback [OF cfg fails] by (simp add: format_value_def)
qed

text \<open>
  Claim C8. When the access to \<open>prefect.config.engine.executor\<close> itself raises, the
  \<open>try\<close> body raises that exception, the handler raises it again while it builds the
  message, and the exception escapes: no warning, no fallback.
\<close>

theorem config_access_failure_escapes:
  assumes "config_engine_executor env = Inl e"
  shows "resolve_configured env = Inl e \<and> init_DEFAULT_EXECUTOR env = Inl e"
  using assms by (simp add: init_DEFAULT_EXECUTOR_def resolve_configured_def)

text \<open>
  Claim C8 at a configuration without the attribute \<open>executor\<close>.
\<close>

theorem config_access_failure_escapes_witness:
  "init_DEFAULT_EXECUTOR (example_env (Inl (AttributeError ''executor''))) =
     Inl (AttributeError ''executor'')"
proof -
  have "config_engine_executor (example_env (Inl (AttributeError ''executor''))) =
          Inl (AttributeError ''executor'')"
    by (simp add: example_env_def)
  from config_access_failure_escapes [OF this] show ?thesis by simp
qed

section \<open>Properties of the secret tasks\<close>

lemma example_task_constructed:
  "snd (new_task PrefectSecret Task_init 1 [PStr n] Map.empty) = Inr (example_task n)"
  by (simp add: new_task_def PrefectSecret_call_def bind_name_def PrefectSecret_init_def
      setdefault_def dict_get_def Task_init_def example_task_def)

text \<open>Binding the arguments only ever removes the keyword \<open>name\<close>.\<close>

lemma bind_name_other_keys:
  assumes "bind_name args kw = Inr (n, kw')" and "k \<noteq> ''name''"
  shows "kw' k = kw k"
  using assms by (auto simp: bind_name_def split: list.splits option.splits)

text \<open>
  The guard of both constructors: a truthy \<open>result_handler\<close> raises, anything else goes
  on to the \<open>Task\<close> constructor with the handler of the task itself.
\<close>

lemma SecretBase_init_truthy:
  assumes "kw ''result_handler'' = Some h" and "truthy h"
  shows "SecretBase_init task_init self kw = Inl not_configurable"
  using assms by (simp add: SecretBase_init_def dict_get_def)

lemma PrefectSecret_init_truthy:
  assumes "kw ''result_handler'' = Some h" and "truthy h"
  shows "PrefectSecret_init task_init self n kw = Inl not_configurable"
  using assms
  by (simp add: PrefectSecret_init_def Let_def dict_get_def setdefault_def split: option.splits)

lemma SecretBase_init_falsy:
  assumes "\<not> truthy (dict_get kw ''result_handler'')"
  shows "SecretBase_init task_init self kw =
           task_init self (kw(''result_handler'' \<mapsto> PSecretResultHandler self))"
  using assms by (simp add: SecretBase_init_def)

lemma PrefectSecret_init_falsy:
  assumes "\<not> truthy (dict_get kw ''result_handler'')"
  shows "PrefectSecret_init task_init self n kw =
           task_init self
             ((setdefault (setdefault (kw(''name'' \<mapsto> n)) ''max_retries'' (PInt 2))
                 ''retry_delay'' (PTimedelta 1))
              (''result_handler'' \<mapsto> PSecretResultHandler self))"
  using assms
  by (simp add: PrefectSecret_init_def Let_def dict_get_def setdefault_def split: option.splits)

lemma PrefectSecret_init_cases:
  "PrefectSecret_init task_init self n kw = Inl not_configurable \<and>
     truthy (dict_get kw ''result_handler'') \<or>
   PrefectSecret_init task_init self n kw =
     task_init self
       ((setdefault (setdefault (kw(''name'' \<mapsto> n)) ''max_retries'' (PInt 2))
           ''retry_delay'' (PTimedelta 1))
        (''result_handler'' \<mapsto> PSecretResultHandler self)) \<and>
     \<not> truthy (dict_get kw ''result_handler'')"
  by (cases "truthy (dict_get kw ''result_handler'')")
     (simp_all add: PrefectSecret_init_falsy,
      simp add: PrefectSecret_init_def Let_def dict_get_def setdefault_def split: option.splits)

lemma PrefectSecret_init_Inr:
  assumes "PrefectSecret_init task_init self n kw = Inr t"
  shows "task_init self
       ((setdefault (setdefault (kw(''name'' \<mapsto> n)) ''max_retries'' (PInt 2))
           ''retry_delay'' (PTimedelta 1))
        (''result_handler'' \<mapsto> PSecretResultHandler self)) = Inr t"
  using assms PrefectSecret_init_cases [of task_init self n kw] by auto

lemma SecretBase_init_Inr:
  assumes "SecretBase_init task_init self kw = Inr t"
  shows "task_init self (kw(''result_handler'' \<mapsto> PSecretResultHandler self)) = Inr t"
  using assms by (simp add: SecretBase_init_def split: if_splits)

lemma PrefectSecret_call_Inr:
  assumes "PrefectSecret_call task_init self args kw = Inr t"
  shows "\<exists>n kw0. bind_name args kw = Inr (n, kw0) \<and> PrefectSecret_init task_init self n kw0 = Inr t"
  using assms by (auto simp: PrefectSecret_call_def split: sum.splits)

text \<open>A successful construction had no keyword \<open>self\<close>, and ran the class's constructor.\<close>

lemma new_task_Inr:
  assumes "snd (new_task cls task_init oid args kw) = Inr t"
  shows "kw ''self'' = None"
    and "cls = SecretBase \<Longrightarrow> SecretBase_init task_init (Ref cls oid) kw = Inr t"
    and "cls \<noteq> SecretBase \<Longrightarrow> PrefectSecret_call task_init (Ref cls oid) args kw = Inr t"
  using assms
  by (cases cls; auto simp: new_task_def Secret_init_def split: if_splits list.splits)+

text \<open>
  What the guard does reject: in a call whose arguments bind, a truthy
  \<open>result_handler\<close> raises the \<open>ValueError\<close> in each of the three classes, whatever the
  \<open>Task\<close> constructor would do.
\<close>

lemma new_task_truthy:
  assumes "kw ''result_handler'' = Some h" and "truthy h" and "binds cls args kw"
  shows "snd (new_task cls task_init oid args kw) =
           Inl (ValueError ''Result Handlers for Secrets are not configurable.'')"
proof (cases cls)
  case SecretBase
  with assms show ?thesis
    by (simp add: new_task_def binds_def SecretBase_init_truthy not_configurable_def)
next
  case PrefectSecret
  with assms(3) obtain n kw0 where b: "bind_name args kw = Inr (n, kw0)"
    and s: "kw ''self'' = None"
    by (cases "bind_name args kw") (auto simp: binds_def)
  then have "kw0 ''result_handler'' = Some h"
    using assms(1) bind_name_other_keys [OF b, of "''result_handler''"] by simp
  then have "PrefectSecret_init task_init (Ref cls oid) n kw0 = Inl not_configurable"
    using assms(2) by (rule PrefectSecret_init_truthy)
  with b s PrefectSecret show ?thesis
    by (simp add: new_task_def PrefectSecret_call_def not_configurable_def)
next
  case Secret
  with assms(3) obtain n kw0 where b: "bind_name args kw = Inr (n, kw0)"
    and s: "kw ''self'' = None"
    by (cases "bind_name args kw") (auto simp: binds_def)
  then have "kw0 ''result_handler'' = Some h"
    using assms(1) bind_name_other_keys [OF b, of "''result_handler''"] by simp
  then have "PrefectSecret_init task_init (Ref cls oid) n kw0 = Inl not_configurable"
    using assms(2) by (rule PrefectSecret_init_truthy)
  with b s Secret show ?thesis
    by (simp add: new_task_def Secret_init_def PrefectSecret_call_def not_configurable_def)
qed

text \<open>For instance \<open>Secret("DB_PASSWORD", result_handler=JSONResultHandler())\<close>.\<close>

lemma new_task_truthy_example:
  "snd (new_task Secret Task_init 3 [PStr ''DB_PASSWORD'']
          [''result_handler'' \<mapsto> PResultHandler ''JSONResultHandler'' True]) =
     Inl (ValueError ''Result Handlers for Secrets are not configurable.'')"
proof -
  let ?kw = "[''result_handler'' \<mapsto> PResultHandler ''JSONResultHandler'' True]"
  have 1: "?kw ''result_handler'' = Some (PResultHandler ''JSONResultHandler'' True)" by simp
  have 2: "truthy (PResultHandler ''JSONResultHandler'' True)" by simp
  have 3: "binds Secret [PStr ''DB_PASSWORD''] ?kw" by (simp add: binds_def bind_name_def)
  from new_task_truthy [OF 1 2 3, of Task_init 3] show ?thesis .
qed

text \<open>
  Claim C2 (the code departs from it). \<open>SecretBase(result_handler=None)\<close> and
  \<open>PrefectSecret("x", result_handler=None)\<close> supply the keyword explicitly in a well-formed
  call, and no \<open>ValueError\<close> is raised: the guard tests the truth value of the keyword,
  not its presence, and the task is built with the handler replaced. The same happens
  to a handler object of the caller whose truth value is \<open>False\<close> (a class with
  \<open>__len__\<close> and nothing stored, say). The docstrings of both classes promise the
  \<open>ValueError\<close> whenever the keyword is passed.
\<close>

theorem result_handler_keyword_not_rejected:
  "[''result_handler'' \<mapsto> PNone] ''result_handler'' = Some PNone \<and>
   binds SecretBase [] [''result_handler'' \<mapsto> PNone] \<and>
   snd (new_task SecretBase Task_init 3 [] [''result_handler'' \<mapsto> PNone]) =
     Inr \<lparr>task_id = Ref SecretBase 3,
          task_attrs = [''result_handler'' \<mapsto> PSecretResultHandler (Ref SecretBase 3)]\<rparr> \<and>
   binds PrefectSecret [PStr ''x''] [''result_handler'' \<mapsto> PNone] \<and>
   (case snd (new_task PrefectSecret Task_init 4 [PStr ''x''] [''result_handler'' \<mapsto> PNone]) of
      Inl e \<Rightarrow> False
    | Inr t \<Rightarrow>
        task_attrs t ''result_handler'' = Some (PSecretResultHandler (Ref PrefectSecret 4))) \<and>
   binds SecretBase [] [''result_handler'' \<mapsto> PResultHandler ''EmptyHandler'' False] \<and>
   snd (new_task SecretBase Task_init 5 []
          [''result_handler'' \<mapsto> PResultHandler ''EmptyHandler'' False]) =
     Inr \<lparr>task_id = Ref SecretBase 5,
          task_attrs = [''result_handler'' \<mapsto> PSecretResultHandler (Ref SecretBase 5)]\<rparr>"
  by (simp add: binds_def bind_name_def new_task_def SecretBase_init_def PrefectSecret_call_def
      PrefectSecret_init_def setdefault_def dict_get_def Task_init_def)

text \<open>
  Claim C4. Whatever the class and the arguments, a construction that succeeds returns
  the task that the \<open>Task\<close> constructor built for \<open>self\<close> from keyword arguments whose
  \<open>result_handler\<close> is the \<open>SecretResultHandler\<close> of \<open>self\<close>.
\<close>

theorem secret_task_handler_bound:
  assumes "snd (new_task cls task_init oid args kw) = Inr t"
  shows "\<exists>kw'. task_init (Ref cls oid) kw' = Inr t \<and>
               kw' ''result_handler'' = Some (PSecretResultHandler (Ref cls oid))"
proof (cases "cls = SecretBase")
  case True
  from SecretBase_init_Inr [OF new_task_Inr(2) [OF assms True]] show ?thesis
    by (intro exI conjI) (assumption, simp)
next
  case False
  from PrefectSecret_call_Inr [OF new_task_Inr(3) [OF assms False]]
  obtain n kw0 where "PrefectSecret_init task_init (Ref cls oid) n kw0 = Inr t"
    by blast
  from PrefectSecret_init_Inr [OF this] show ?thesis
    by (intro exI conjI) (assumption, simp)
qed

text \<open>
  Claim C4 at \<open>PrefectSecret("DB_PASSWORD")\<close>, with the \<open>Task\<close> constructor that keeps
  the keywords as attributes.
\<close>

theorem secret_task_handler_bound_witness:
  "snd (new_task PrefectSecret Task_init 1 [PStr ''DB_PASSWORD''] Map.empty) =
     Inr (example_task ''DB_PASSWORD'') \<and>
   task_id (example_task ''DB_PASSWORD'') = Ref PrefectSecret 1 \<and>
   task_attrs (example_task ''DB_PASSWORD'') ''result_handler'' =
     Some (PSecretResultHandler (Ref PrefectSecret 1))"
proof -
  have c: "snd (new_task PrefectSecret Task_init 1 [PStr ''DB_PASSWORD''] Map.empty) =
             Inr (example_task ''DB_PASSWORD'')"
    by (rule example_task_constructed)
  from secret_task_handler_bound [OF c]
  obtain kw' where "Task_init (Ref PrefectSecret 1) kw' = Inr (example_task ''DB_PASSWORD'')"
    and "kw' ''result_handler'' = Some (PSecretResultHandler (Ref PrefectSecret 1))"
    by blast
  then have "task_attrs (example_task ''DB_PASSWORD'') ''result_handler'' =
               Some (PSecretResultHandler (Ref PrefectSecret 1))"
    by (auto simp: Task_init_def example_task_def)
  with c show ?thesis by (simp add: example_task_def)
qed

text \<open>
  The name reaches the \<open>Task\<close> constructor: a \<open>PrefectSecret\<close> whose call binds \<open>name\<close>
  to \<open>n\<close> is the task that the \<open>Task\<close> constructor built from keywords with \<open>name = n\<close>.
\<close>

lemma prefect_secret_name_keyword:
  assumes "bind_name args kw = Inr (n, kw0)"
    and "snd (new_task PrefectSecret task_init oid args kw) = Inr t"
  shows "\<exists>kw'. task_init (Ref PrefectSecret oid) kw' = Inr t \<and> kw' ''name'' = Some n"
proof -
  have "PrefectSecret_call task_init (Ref PrefectSecret oid) args kw = Inr t"
    using new_task_Inr(3) [OF assms(2)] by simp
  with assms(1) have "PrefectSecret_init task_init (Ref PrefectSecret oid) n kw0 = Inr t"
    by (simp add: PrefectSecret_call_def)
  from PrefectSecret_init_Inr [OF this] show ?thesis
    by (intro exI conjI) (assumption, simp add: setdefault_def split: option.splits)
qed

text \<open>Both constructors of the base class keep a truthy name.\<close>

lemma keeps_truthy_name_Task_init: "keeps_truthy_name Task_init"
  by (auto simp: keeps_truthy_name_def Task_init_def)

lemma keeps_truthy_name_Task_init_class_named: "keeps_truthy_name Task_init_class_named"
  by (auto simp: keeps_truthy_name_def Task_init_class_named_def dict_get_def)

text \<open>
  Claim C10 as stated fails at the empty name: with the constructor that names a task
  after its class when its name is falsy, \<open>PrefectSecret("")\<close> has the attribute \<open>name\<close>
  \<open>PrefectSecret\<close>, not the empty string it was constructed with, and \<open>run()\<close>
  retrieves the secret of that name.
\<close>

theorem empty_name_named_after_class:
  "bind_name [PStr []] Map.empty = Inr (PStr [], Map.empty) \<and>
   (case snd (new_task PrefectSecret Task_init_class_named 1 [PStr []] Map.empty) of
      Inl e \<Rightarrow> False
    | Inr t \<Rightarrow>
        task_attrs t ''name'' = Some (PStr ''PrefectSecret'') \<and>
        task_attrs t ''name'' \<noteq> Some (PStr []) \<and>
        PrefectSecret_run Inr t None = Inr (PStr ''PrefectSecret''))"
  by (simp add: bind_name_def new_task_def PrefectSecret_call_def PrefectSecret_init_def
      setdefault_def dict_get_def Task_init_class_named_def PrefectSecret_run_def
      defaults_from_attrs_name_def)

text \<open>
  Claim C10, amended. For every \<open>Task\<close> constructor that keeps a truthy name, a
  \<open>PrefectSecret\<close> constructed with a truthy secret name \<open>n\<close> has \<open>n\<close> as its attribute
  \<open>name\<close>, and \<open>run()\<close> retrieves the secret of that name: the display name and the
  secret retrieved by default coincide with \<open>n\<close>.
\<close>

theorem prefect_secret_name:
  assumes "keeps_truthy_name task_init"
    and "bind_name args kw = Inr (n, kw0)"
    and "truthy n"
    and "snd (new_task PrefectSecret task_init oid args kw) = Inr t"
  shows "task_attrs t ''name'' = Some n \<and>
         PrefectSecret_run secret_get t None = secret_get n"
proof -
  from prefect_secret_name_keyword [OF assms(2) assms(4)]
  obtain kw' where "task_init (Ref PrefectSecret oid) kw' = Inr t" and "kw' ''name'' = Some n"
    by blast
  with assms(1) assms(3) have "task_attrs t ''name'' = Some n"
    unfolding keeps_truthy_name_def by blast
  then show ?thesis
    by (simp add: PrefectSecret_run_def defaults_from_attrs_name_def)
qed

text \<open>
  Claim C10, amended, at \<open>PrefectSecret("DB_PASSWORD")\<close>, with the constructor of the
  counterexample.
\<close>

theorem prefect_secret_name_witness:
  "bind_name [PStr ''DB_PASSWORD''] Map.empty = Inr (PStr ''DB_PASSWORD'', Map.empty) \<and>
   truthy (PStr ''DB_PASSWORD'') \<and>
   (case snd (new_task PrefectSecret Task_init_class_named 1 [PStr ''DB_PASSWORD''] Map.empty) of
      Inl e \<Rightarrow> False
    | Inr t \<Rightarrow>
        task_attrs t ''name'' = Some (PStr ''DB_PASSWORD'') \<and>
        PrefectSecret_run Inr t None = Inr (PStr ''DB_PASSWORD''))"
proof -
  have b: "bind_name [PStr ''DB_PASSWORD''] Map.empty = Inr (PStr ''DB_PASSWORD'', Map.empty)"
    by (simp add: bind_name_def)
  have tr: "truthy (PStr ''DB_PASSWORD'')" by simp
  obtain t where c:
    "snd (new_task PrefectSecret Task_init_class_named 1 [PStr ''DB_PASSWORD''] Map.empty) = Inr t"
    by (simp add: new_task_def PrefectSecret_call_def bind_name_def PrefectSecret_init_def
        setdefault_def dict_get_def Task_init_class_named_def)
  from prefect_secret_name [OF keeps_truthy_name_Task_init_class_named b tr c, of Inr]
  show ?thesis
    using b c by simp
qed

text \<open>
  Claim C6. The \<open>Task\<close> constructor of a \<open>PrefectSecret\<close> receives \<open>max_retries\<close> and
  \<open>retry_delay\<close> as the caller gave them, and 2 and one second where the caller gave
  none.
\<close>

theorem prefect_secret_retry_defaults:
  assumes "snd (new_task PrefectSecret task_init oid args kw) = Inr t"
  shows "\<exists>kw'. task_init (Ref PrefectSecret oid) kw' = Inr t \<and>
     kw' ''max_retries'' =
       Some (case kw ''max_retries'' of None \<Rightarrow> PInt 2 | Some v \<Rightarrow> v) \<and>
     kw' ''retry_delay'' =
       Some (case kw ''retry_delay'' of None \<Rightarrow> PTimedelta 1 | Some v \<Rightarrow> v)"
proof -
  have "PrefectSecret_call task_init (Ref PrefectSecret oid) args kw = Inr t"
    using new_task_Inr(3) [OF assms] by simp
  from PrefectSecret_call_Inr [OF this]
  obtain n kw0 where b: "bind_name args kw = Inr (n, kw0)"
    and i: "PrefectSecret_init task_init (Ref PrefectSecret oid) n kw0 = Inr t"
    by blast
  have mr: "kw0 ''max_retries'' = kw ''max_retries''"
    using bind_name_other_keys [OF b, of "''max_retries''"] by simp
  have rd: "kw0 ''retry_delay'' = kw ''retry_delay''"
    using bind_name_other_keys [OF b, of "''retry_delay''"] by simp
  let ?kw' = "(setdefault (setdefault (kw0(''name'' \<mapsto> n)) ''max_retries'' (PInt 2))
                 ''retry_delay'' (PTimedelta 1))
              (''result_handler'' \<mapsto> PSecretResultHandler (Ref PrefectSecret oid))"
  have "task_init (Ref PrefectSecret oid) ?kw' = Inr t"
    by (rule PrefectSecret_init_Inr [OF i])
  moreover have "?kw' ''max_retries'' =
       Some (case kw ''max_retries'' of None \<Rightarrow> PInt 2 | Some v \<Rightarrow> v)"
    using mr by (simp add: setdefault_def split: option.splits)
  moreover have "?kw' ''retry_delay'' =
       Some (case kw ''retry_delay'' of None \<Rightarrow> PTimedelta 1 | Some v \<Rightarrow> v)"
    using rd by (simp add: setdefault_def split: option.splits)
  ultimately show ?thesis by blast
qed

text \<open>Claim C6 at \<open>PrefectSecret("DB_PASSWORD")\<close>: 2 retries, one second.\<close>

theorem prefect_secret_retry_defaults_witness:
  "snd (new_task PrefectSecret Task_init 1 [PStr ''DB_PASSWORD''] Map.empty) =
     Inr (example_task ''DB_PASSWORD'') \<and>
   task_attrs (example_task ''DB_PASSWORD'') ''max_retries'' = Some (PInt 2) \<and>
   task_attrs (example_task ''DB_PASSWORD'') ''retry_delay'' = Some (PTimedelta 1)"
proof -
  have c: "snd (new_task PrefectSecret Task_init 1 [PStr ''DB_PASSWORD''] Map.empty) =
             Inr (example_task ''DB_PASSWORD'')"
    by (rule example_task_constructed)
  from prefect_secret_retry_defaults [OF c]
  obtain kw' where "Task_init (Ref PrefectSecret 1) kw' = Inr (example_task ''DB_PASSWORD'')"
    and "kw' ''max_retries'' = Some (PInt 2)"
    and "kw' ''retry_delay'' = Some (PTimedelta 1)"
    by auto
  then have "task_attrs (example_task ''DB_PASSWORD'') ''max_retries'' = Some (PInt 2) \<and>
             task_attrs (example_task ''DB_PASSWORD'') ''retry_delay'' = Some (PTimedelta 1)"
    by (auto simp: Task_init_def example_task_def)
  with c show ?thesis by simp
qed

text \<open>
  Claim C9. A \<open>result_handler\<close> keyword whose value is falsy passes the guard of
  \<open>SecretBase\<close> and of \<open>PrefectSecret\<close>: the constructor goes on to the \<open>Task\<close>
  constructor, with the value replaced by the \<open>SecretResultHandler\<close> of the task.
\<close>

theorem falsy_result_handler_replaced:
  assumes "kw ''result_handler'' = Some v" and "\<not> truthy v"
  shows "SecretBase_init task_init self kw =
           task_init self (kw(''result_handler'' \<mapsto> PSecretResultHandler self)) \<and>
         PrefectSecret_init task_init self n kw =
           task_init self
             ((setdefault (setdefault (kw(''name'' \<mapsto> n)) ''max_retries'' (PInt 2))
                 ''retry_delay'' (PTimedelta 1))
              (''result_handler'' \<mapsto> PSecretResultHandler self))"
proof -
  from assms have "\<not> truthy (dict_get kw ''result_handler'')"
    by (simp add: dict_get_def)
  then show ?thesis
    by (simp add: SecretBase_init_falsy PrefectSecret_init_falsy)
qed

text \<open>
  Claim C9 at \<open>SecretBase(result_handler=False)\<close> and
  \<open>PrefectSecret("DB_PASSWORD", result_handler="")\<close>.
\<close>

theorem falsy_result_handler_replaced_witness:
  "SecretBase_init Task_init (Ref SecretBase 3) [''result_handler'' \<mapsto> PBool False] =
     Inr \<lparr>task_id = Ref SecretBase 3,
          task_attrs = [''result_handler'' \<mapsto> PSecretResultHandler (Ref SecretBase 3)]\<rparr> \<and>
   (case PrefectSecret_init Task_init (Ref PrefectSecret 3) (PStr ''DB_PASSWORD'')
           [''result_handler'' \<mapsto> PStr []] of
      Inl e \<Rightarrow> False
    | Inr t \<Rightarrow>
        task_attrs t ''result_handler'' = Some (PSecretResultHandler (Ref PrefectSecret 3)))"
proof -
  have 1: "[''result_handler'' \<mapsto> PBool False] ''result_handler'' = Some (PBool False)"
    by simp
  have 2: "\<not> truthy (PBool False)" by simp
  have 3: "[''result_handler'' \<mapsto> PStr []] ''result_handler'' = Some (PStr [])"
    by simp
  have 4: "\<not> truthy (PStr [])" by simp
  from falsy_result_handler_replaced
         [where kw = "[''result_handler'' \<mapsto> PBool False]" and v = "PBool False"
            and task_init = Task_init and self = "Ref SecretBase 3", OF 1 2]
       falsy_result_handler_replaced
         [where kw = "[''result_handler'' \<mapsto> PStr []]" and v = "PStr []"
            and task_init = Task_init and self = "Ref PrefectSecret 3"
            and n = "PStr ''DB_PASSWORD''", OF 3 4]
  show ?thesis by (simp add: Task_init_def)
qed

text \<open>
  The constructor of \<open>PrefectSecret\<close> on unbound arguments: a \<open>TypeError\<close> of the
  binding, the \<open>ValueError\<close> of the guard, or the \<open>Task\<close> constructor on the keywords
  with the defaults and the handler of \<open>self\<close>.
\<close>

lemma PrefectSecret_call_unfold:
  "PrefectSecret_call task_init self args kw =
     (case bind_name args kw of
        Inl e \<Rightarrow> Inl e
      | Inr (n, kw0) \<Rightarrow>
          if truthy (dict_get kw0 ''result_handler'') then Inl not_configurable
          else task_init self
                 ((setdefault (setdefault (kw0(''name'' \<mapsto> n)) ''max_retries'' (PInt 2))
                     ''retry_delay'' (PTimedelta 1))
                  (''result_handler'' \<mapsto> PSecretResultHandler self)))"
  using PrefectSecret_init_cases [of task_init self]
  by (auto simp: PrefectSecret_call_def split: sum.splits)

text \<open>
  Claim C7 as stated fails. With the constructor that names a task after its class
  when its name is falsy, \<open>Secret("")\<close> is named \<open>Secret\<close> and \<open>PrefectSecret("")\<close> is
  named \<open>PrefectSecret\<close>, and \<open>run()\<close> retrieves a different secret for each. And a call
  with a keyword \<open>self\<close> fails before the body of \<open>Secret.__init__\<close>: no warning.
\<close>

theorem Secret_named_after_its_class:
  "(case (snd (new_task Secret Task_init_class_named 1 [PStr []] Map.empty),
          snd (new_task PrefectSecret Task_init_class_named 1 [PStr []] Map.empty)) of
      (Inr s, Inr p) \<Rightarrow>
        task_attrs s ''name'' = Some (PStr ''Secret'') \<and>
        task_attrs p ''name'' = Some (PStr ''PrefectSecret'') \<and>
        PrefectSecret_run Inr s None = Inr (PStr ''Secret'') \<and>
        PrefectSecret_run Inr p None = Inr (PStr ''PrefectSecret'')
    | _ \<Rightarrow> False) \<and>
   fst (new_task Secret Task_init_class_named 1 [PStr ''x''] [''self'' \<mapsto> PInt 1]) = []"
  by (simp add: new_task_def Secret_init_def PrefectSecret_call_def bind_name_def
      PrefectSecret_init_def setdefault_def dict_get_def Task_init_class_named_def
      PrefectSecret_run_def defaults_from_attrs_name_def)

text \<open>
  Claim C7, amended. For every argument list without a keyword \<open>self\<close>, and every
  \<open>Task\<close> constructor: \<open>Secret(...)\<close> emits exactly one warning, the deprecation, and
  \<open>PrefectSecret(...)\<close> none; on the same arguments both raise the same error before
  the \<open>Task\<close> constructor, or both call the \<open>Task\<close> constructor, each for its own new
  object, on the same keywords but for \<open>result_handler\<close>, which is the
  \<open>SecretResultHandler\<close> of the new object; both classes have the same \<open>run\<close> method.
\<close>

theorem Secret_wraps_PrefectSecret:
  assumes "kw ''self'' = None"
  shows "fst (new_task Secret task_init oid args kw) =
           [UserWarning ''The `Secret` task is deprecated and has been renamed `PrefectSecret`.''] \<and>
         fst (new_task PrefectSecret task_init oid args kw) = [] \<and>
         ((\<exists>e. snd (new_task Secret task_init oid args kw) = Inl e \<and>
               snd (new_task PrefectSecret task_init oid args kw) = Inl e) \<or>
          (\<exists>kw'. snd (new_task Secret task_init oid args kw) =
                    task_init (Ref Secret oid)
                      (kw'(''result_handler'' \<mapsto> PSecretResultHandler (Ref Secret oid))) \<and>
                  snd (new_task PrefectSecret task_init oid args kw) =
                    task_init (Ref PrefectSecret oid)
                      (kw'(''result_handler'' \<mapsto> PSecretResultHandler (Ref PrefectSecret oid))))) \<and>
         run_method Secret = run_method PrefectSecret"
proof -
  have w: "fst (new_task Secret task_init oid args kw) =
             [UserWarning ''The `Secret` task is deprecated and has been renamed `PrefectSecret`.'']"
    using assms by (simp add: new_task_def Secret_init_def deprecation_message_def)
  have n: "fst (new_task PrefectSecret task_init oid args kw) = []"
    using assms by (simp add: new_task_def)
  have s: "snd (new_task Secret task_init oid args kw) =
             PrefectSecret_call task_init (Ref Secret oid) args kw"
    using assms by (simp add: new_task_def Secret_init_def)
  have p: "snd (new_task PrefectSecret task_init oid args kw) =
             PrefectSecret_call task_init (Ref PrefectSecret oid) args kw"
    using assms by (simp add: new_task_def)
  have r: "run_method Secret = run_method PrefectSecret"
    by (simp add: run_method_def)
  have "(\<exists>e. PrefectSecret_call task_init (Ref Secret oid) args kw = Inl e \<and>
              PrefectSecret_call task_init (Ref PrefectSecret oid) args kw = Inl e) \<or>
        (\<exists>kw'. PrefectSecret_call task_init (Ref Secret oid) args kw =
                  task_init (Ref Secret oid)
                    (kw'(''result_handler'' \<mapsto> PSecretResultHandler (Ref Secret oid))) \<and>
                PrefectSecret_call task_init (Ref PrefectSecret oid) args kw =
                  task_init (Ref PrefectSecret oid)
                    (kw'(''result_handler'' \<mapsto> PSecretResultHandler (Ref PrefectSecret oid))))"
  proof (cases "bind_name args kw")
    case (Inl e)
    then show ?thesis by (simp add: PrefectSecret_call_unfold)
  next
    case (Inr b)
    obtain n kw0 where b: "b = (n, kw0)" by (cases b)
    show ?thesis
    proof (cases "truthy (dict_get kw0 ''result_handler'')")
      case True
      with Inr b show ?thesis by (simp add: PrefectSecret_call_unfold)
    next
      case False
      with Inr b show ?thesis
        by (intro disjI2 exI) (simp add: PrefectSecret_call_unfold)
    qed
  qed
  with w n s p r show ?thesis by simp
qed

text \<open>
  Claim C7, amended, at \<open>Secret("DB_PASSWORD", max_retries=5)\<close> and
  \<open>PrefectSecret("DB_PASSWORD", max_retries=5)\<close>, with the constructor that keeps the
  keywords as attributes: one warning, the same name and retry settings, and each
  handler bound to its own task.
\<close>

theorem Secret_wraps_PrefectSecret_witness:
  "[''max_retries'' \<mapsto> PInt 5] ''self'' = None \<and>
   fst (new_task Secret Task_init 1 [PStr ''DB_PASSWORD''] [''max_retries'' \<mapsto> PInt 5]) =
     [UserWarning ''The `Secret` task is deprecated and has been renamed `PrefectSecret`.''] \<and>
   (case (snd (new_task Secret Task_init 1 [PStr ''DB_PASSWORD''] [''max_retries'' \<mapsto> PInt 5]),
          snd (new_task PrefectSecret Task_init 1 [PStr ''DB_PASSWORD'']
                 [''max_retries'' \<mapsto> PInt 5])) of
      (Inr s, Inr p) \<Rightarrow>
        task_attrs s ''name'' = Some (PStr ''DB_PASSWORD'') \<and>
        task_attrs p ''name'' = Some (PStr ''DB_PASSWORD'') \<and>
        task_attrs s ''max_retries'' = Some (PInt 5) \<and>
        task_attrs p ''max_retries'' = Some (PInt 5) \<and>
        task_attrs s ''retry_delay'' = Some (PTimedelta 1) \<and>
        task_attrs p ''retry_delay'' = Some (PTimedelta 1) \<and>
        task_attrs s ''result_handler'' = Some (PSecretResultHandler (Ref Secret 1)) \<and>
        task_attrs p ''result_handler'' = Some (PSecretResultHandler (Ref PrefectSecret 1))
    | _ \<Rightarrow> False)"
proof -
  have h: "[''max_retries'' \<mapsto> PInt 5] ''self'' = None" by simp
  from Secret_wraps_PrefectSecret
         [where kw = "[''max_retries'' \<mapsto> PInt 5]" and task_init = Task_init and oid = 1
            and args = "[PStr ''DB_PASSWORD'']", OF h]
  have "fst (new_task Secret Task_init 1 [PStr ''DB_PASSWORD''] [''max_retries'' \<mapsto> PInt 5]) =
     [UserWarning ''The `Secret` task is deprecated and has been renamed `PrefectSecret`.'']"
    by blast
  then show ?thesis
    by (simp add: new_task_def Secret_init_def PrefectSecret_call_def bind_name_def
        PrefectSecret_init_def setdefault_def dict_get_def Task_init_def)
qed



text \<open>
  Claim C3 as stated fails. The handler's \<open>write\<close> returns the marker whatever the
  value: with the task's name as marker, the handler of the task \<open>topsecret\<close> writes
  the value \<open>topsecret\<close> as itself. And \<open>read\<close> runs the retrieval again: after
  writing the value \<open>other\<close>, it returns the secret, not \<open>other\<close>.
\<close>

theorem secure_handler_marker_collision:
  "SecretResultHandler_write name_marker (example_task ''topsecret'') (PStr ''topsecret'') =
     PStr ''topsecret'' \<and>
   SecretResultHandler_read (example_secret_env (PStr ''DB_PASSWORD'') (PStr ''topsecret''))
     (example_task ''DB_PASSWORD'')
     (SecretResultHandler_write name_marker (example_task ''DB_PASSWORD'') (PStr ''other'')) =
     Inr (PStr ''topsecret'')"
  by (simp add: SecretResultHandler_write_def SecretResultHandler_read_def name_marker_def
      PrefectSecret_run_def defaults_from_attrs_name_def client_Secret_get_def
      example_secret_env_def example_task_def)

text \<open>
  Claim C3, amended. For a value \<open>v\<close> that the retrieval of the bound task yields
  and that differs from the task's marker, \<open>write\<close> returns the marker, which is not
  \<open>v\<close>, and \<open>read\<close> of it yields \<open>v\<close> again.
\<close>

theorem secure_handler_round_trip:
  assumes "PrefectSecret_run (client_Secret_get env) t None = Inr v"
    and "v \<noteq> PStr (marker t)"
  shows "SecretResultHandler_write marker t v = PStr (marker t) \<and>
         SecretResultHandler_write marker t v \<noteq> v \<and>
         SecretResultHandler_read env t (SecretResultHandler_write marker t v) = Inr v"
  using assms by (simp add: SecretResultHandler_write_def SecretResultHandler_read_def)

text \<open>
  Claim C3, amended, at the secret \<open>DB_PASSWORD\<close> with value \<open>topsecret\<close>.
\<close>

theorem secure_handler_round_trip_witness:
  "SecretResultHandler_write name_marker (example_task ''DB_PASSWORD'') (PStr ''topsecret'') =
     PStr ''DB_PASSWORD'' \<and>
   SecretResultHandler_read (example_secret_env (PStr ''DB_PASSWORD'') (PStr ''topsecret''))
     (example_task ''DB_PASSWORD'')
     (SecretResultHandler_write name_marker (example_task ''DB_PASSWORD'') (PStr ''topsecret'')) =
     Inr (PStr ''topsecret'')"
proof -
  let ?env = "example_secret_env (PStr ''DB_PASSWORD'') (PStr ''topsecret'')"
  let ?t = "example_task ''DB_PASSWORD''"
  have r: "PrefectSecret_run (client_Secret_get ?env) ?t None = Inr (PStr ''topsecret'')"
    by (simp add: PrefectSecret_run_def defaults_from_attrs_name_def client_Secret_get_def
        example_secret_env_def example_task_def)
  have m: "name_marker ?t = ''DB_PASSWORD''"
    by (simp add: name_marker_def example_task_def)
  then have d: "PStr ''topsecret'' \<noteq> PStr (name_marker ?t)" by simp
  from secure_handler_round_trip
         [where marker = name_marker and t = "?t" and env = "?env", OF r d, unfolded m]
  show ?thesis
    by blast
qed

end
